theory Spec2Isabelle
  imports Complex_Main "HOL-Library.Word"
begin

section \<open>Values of the JavaScript runtime\<close>

text \<open>
  The server is \<^verbatim>\<open>src/Backend/app.js\<close>. A JavaScript string is a sequence of
  UTF-16 code units; \<open>js\<close> embeds an ASCII literal of the source. A \<^verbatim>\<open>Buffer\<close> is a
  sequence of bytes.
\<close>

type_synonym jsstring = "16 word list"
type_synonym bytes = "8 word list"

definition js :: "string \<Rightarrow> jsstring" where
  "js s = map (\<lambda>c. of_nat (of_char c)) s"

text \<open>
  \<^verbatim>\<open>String.prototype.trim\<close> removes the leading and trailing code units that are
  WhiteSpace or LineTerminator of ECMAScript: TAB, LF, VT, FF, CR, SP, NBSP, U+1680,
  U+2000..U+200A, U+2028, U+2029, U+202F, U+205F, U+3000 and U+FEFF.
\<close>

definition is_white_space :: "16 word \<Rightarrow> bool" where
  "is_white_space c =
     (c = 0x09 \<or> c = 0x0A \<or> c = 0x0B \<or> c = 0x0C \<or> c = 0x0D \<or> c = 0x20 \<or> c = 0xA0
      \<or> c = 0x1680 \<or> (0x2000 \<le> c \<and> c \<le> 0x200A) \<or> c = 0x2028 \<or> c = 0x2029
      \<or> c = 0x202F \<or> c = 0x205F \<or> c = 0x3000 \<or> c = 0xFEFF)"

definition trim :: "jsstring \<Rightarrow> jsstring" where
  "trim s = rev (dropWhile is_white_space (rev (dropWhile is_white_space s)))"

text \<open>
  The values a form field, the body of an HTTP response or the result of the analysis
  can be. An object is the list of its own properties.
\<close>

datatype jsval =
    Undefined
  | Null
  | Bool bool
  | Num int
  | Str jsstring
  | Arr "jsval list"
  | Obj "(jsstring \<times> jsval) list"

text \<open>Truthiness, as \<^verbatim>\<open>if (v)\<close>, \<^verbatim>\<open>!v\<close> and \<^verbatim>\<open>a && b\<close> test it.\<close>

fun truthy :: "jsval \<Rightarrow> bool" where
  "truthy Undefined = False"
| "truthy Null = False"
| "truthy (Bool b) = b"
| "truthy (Num n) = (n \<noteq> 0)"
| "truthy (Str s) = (s \<noteq> [])"
| "truthy (Arr xs) = True"
| "truthy (Obj kvs) = True"

text \<open>
  Strict equality \<^verbatim>\<open>v === "lit"\<close> against a string literal: true exactly for the
  string with the same code units, false for every value of another type.
\<close>

fun strict_eq_string :: "jsval \<Rightarrow> jsstring \<Rightarrow> bool" where
  "strict_eq_string (Str s) lit = (s = lit)"
| "strict_eq_string v lit = False"

text \<open>
  An exception carries its message. A \<^verbatim>\<open>TypeError\<close> is what reading a property of
  \<^verbatim>\<open>null\<close> or \<^verbatim>\<open>undefined\<close> throws.
\<close>

datatype error = Error jsstring | TypeError jsstring

fun message :: "error \<Rightarrow> jsstring" where
  "message (Error m) = m"
| "message (TypeError m) = m"

text \<open>
  Property reads. \<open>get_prop v k\<close> is \<^verbatim>\<open>v.k\<close> for a name \<open>k\<close> that no prototype
  defines (the source reads \<^verbatim>\<open>candidates\<close>, \<^verbatim>\<open>content\<close>, \<^verbatim>\<open>parts\<close> and \<^verbatim>\<open>text\<close>), and
  throws on \<^verbatim>\<open>null\<close> and \<^verbatim>\<open>undefined\<close>. The optional forms \<^verbatim>\<open>v?.k\<close> and \<^verbatim>\<open>v?.[0]\<close>
  (\<open>opt_prop\<close>, \<open>opt_index0\<close>) give \<^verbatim>\<open>undefined\<close> there instead of throwing; the source
  reads index 0 only in the optional form. The first code unit of a string is its index 0.
\<close>

definition lookup_prop :: "(jsstring \<times> jsval) list \<Rightarrow> jsstring \<Rightarrow> jsval" where
  "lookup_prop kvs k = (case map_of kvs k of None \<Rightarrow> Undefined | Some v \<Rightarrow> v)"

fun get_prop :: "jsval \<Rightarrow> jsstring \<Rightarrow> error + jsval" where
  "get_prop Undefined k =
     Inl (TypeError (js ''Cannot read properties of undefined (reading '' @ [0x27] @ k @ [0x27] @ js '')''))"
| "get_prop Null k =
     Inl (TypeError (js ''Cannot read properties of null (reading '' @ [0x27] @ k @ [0x27] @ js '')''))"
| "get_prop (Obj kvs) k = Inr (lookup_prop kvs k)"
| "get_prop v k = Inr Undefined"

fun get_index0 :: "jsval \<Rightarrow> jsval" where
  "get_index0 (Arr xs) = (case xs of [] \<Rightarrow> Undefined | x # _ \<Rightarrow> x)"
| "get_index0 (Str s) = (case s of [] \<Rightarrow> Undefined | c # _ \<Rightarrow> Str [c])"
| "get_index0 (Obj kvs) = lookup_prop kvs (js ''0'')"
| "get_index0 v = Undefined"

definition opt_prop :: "jsval \<Rightarrow> jsstring \<Rightarrow> jsval" where
  "opt_prop v k = (case get_prop v k of Inl _ \<Rightarrow> Undefined | Inr x \<Rightarrow> x)"

definition opt_index0 :: "jsval \<Rightarrow> jsval" where
  "opt_index0 v = get_index0 v"

section \<open>Effects\<close>

text \<open>
  The handlers talk to the file system, to the PDF and OCR libraries and to the
  generative-language endpoint. Each such call is recorded as an event, in the order the
  handler makes it. Console output is not recorded.
\<close>

datatype image = ImagePath jsstring | ImageBuffer bytes

datatype event =
    ReadFileSync jsstring
  | PdfParse bytes
  | GetDocument bytes
  | GetPage nat
  | GetViewport nat real
  | CreateCanvas real real
  | RenderPage nat
  | ToBuffer jsstring
  | Recognize image jsstring
  | PageCleanup nat
  | DestroyCanvas
  | AnalysisCall jsstring
  | AxiosPost jsstring jsval
  | ExistsSync jsstring
  | UnlinkSync jsstring

text \<open>
  A computation that may throw returns the exception or its value, together with the
  events it caused up to that point. \<open>bind_io\<close> is sequencing (\<^verbatim>\<open>await\<close> and \<^verbatim>\<open>;\<close>):
  an exception of the first part skips the second.
\<close>

type_synonym 'a io = "(error + 'a) \<times> event list"

definition return_io :: "'a \<Rightarrow> 'a io" where
  "return_io x = (Inr x, [])"

definition throw_io :: "error \<Rightarrow> 'a io" where
  "throw_io e = (Inl e, [])"

definition call_io :: "event \<Rightarrow> error + 'a \<Rightarrow> 'a io" where
  "call_io ev r = (r, [ev])"

definition bind_io :: "'a io \<Rightarrow> ('a \<Rightarrow> 'b io) \<Rightarrow> 'b io" where
  "bind_io m f =
     (case m of
        (Inl e, es) \<Rightarrow> (Inl e, es)
      | (Inr x, es) \<Rightarrow> (case f x of (r, es') \<Rightarrow> (r, es @ es')))"

definition catch_io :: "'a io \<Rightarrow> (error \<Rightarrow> 'a io) \<Rightarrow> 'a io" where
  "catch_io m h =
     (case m of
        (Inl e, es) \<Rightarrow> (case h e of (r, es') \<Rightarrow> (r, es @ es'))
      | (Inr x, es) \<Rightarrow> (Inr x, es))"

section \<open>The libraries and the environment\<close>

text \<open>
  What the handlers do not compute themselves is a parameter: the environment variable,
  the HTTP client, \<^verbatim>\<open>pdf-parse\<close>, \<^verbatim>\<open>pdfjs-dist\<close>, \<^verbatim>\<open>canvas\<close> and \<^verbatim>\<open>tesseract.js\<close>. Each
  returns a value or throws. The file system maps a path to the bytes stored there.
\<close>

type_synonym files = "jsstring \<rightharpoonup> bytes"

record viewport =
  vp_scale :: real
  vp_width :: real
  vp_height :: real

record pdf_page =
  getViewport :: "real \<Rightarrow> viewport"
  render :: "viewport \<Rightarrow> error + bytes"

record pdf_doc =
  numPages :: nat
  getPage :: "nat \<Rightarrow> error + pdf_page"

record world =
  GEMINI_API_KEY :: "jsstring option"
  axios_post :: "jsstring \<Rightarrow> jsval \<Rightarrow> error + jsval"
  pdfParse :: "bytes \<Rightarrow> error + jsstring"
  getDocument :: "bytes \<Rightarrow> error + pdf_doc"
  createCanvas :: "real \<Rightarrow> real \<Rightarrow> error + unit"
  toBuffer :: "bytes \<Rightarrow> jsstring \<Rightarrow> error + bytes"
  recognize :: "files \<Rightarrow> image \<Rightarrow> jsstring \<Rightarrow> error + jsstring"

text \<open>
  \<open>axios_post w url body\<close> is \<^verbatim>\<open>response.data\<close> of the resolved promise;
  \<open>pdfParse w buf\<close> is the \<^verbatim>\<open>text\<close> property of what \<^verbatim>\<open>pdfParse(buf)\<close> resolves to;
  \<open>render p vp\<close> is the bitmap left on the canvas, which \<open>toBuffer\<close> encodes.
\<close>

section \<open>The analysis client\<close>

definition prompt_head :: string where
  "prompt_head =
     ''You are a world-class social media strategist. Analyze the following post text. Your task is to:\<newline>'' @
     ''1. Correct any grammar and spelling mistakes to make it sound professional and clear.\<newline>'' @
     ''2. Suggest a list of 5 to 10 relevant and trending hashtags to maximize reach.\<newline>'' @
     ''3. Provide a short, actionable paragraph of advice on how to make the post more engaging.\<newline>'' @
     ''\<newline>'' @
     ''Format your response in Markdown with clear headings for '' @ [CHR 0x22] @ ''Improved Text'' @ [CHR 0x22] @
     '', '' @ [CHR 0x22] @ ''Suggested Hashtags'' @ [CHR 0x22] @ '', and '' @ [CHR 0x22] @ ''Engagement Advice'' @ [CHR 0x22] @ ''.\<newline>'' @
     ''\<newline>'' @
     ''Here is the post text:\<newline>'' @
     ''---\<newline>''"

definition make_prompt :: "jsstring \<Rightarrow> jsstring" where
  "make_prompt txt = js prompt_head @ txt @ js ''\<newline>---''"

definition apiUrl :: "jsstring \<Rightarrow> jsstring" where
  "apiUrl key =
     js ''https://generativelanguage.googleapis.com/v1beta/models/gemini-1.5-flash-latest:generateContent?key='' @ key"

definition request_body :: "jsstring \<Rightarrow> jsval" where
  "request_body prompt =
     Obj [(js ''contents'', Arr [Obj [(js ''parts'', Arr [Obj [(js ''text'', Str prompt)]])]])]"

text \<open>
  Lines 99 to 106: \<^verbatim>\<open>response.data.candidates?.[0]\<close>, then the test
  \<^verbatim>\<open>candidate && candidate.content?.parts?.[0]?.text\<close>; the value returned is
  \<^verbatim>\<open>candidate.content.parts[0].text\<close>, the one just tested.
\<close>

definition candidate_text :: "jsval \<Rightarrow> jsval" where
  "candidate_text candidate =
     opt_prop (opt_index0 (opt_prop (opt_prop candidate (js ''content'')) (js ''parts''))) (js ''text'')"

definition parse_response :: "jsval \<Rightarrow> jsval io" where
  "parse_response data =
     (case get_prop data (js ''candidates'') of
        Inl e \<Rightarrow> throw_io e
      | Inr candidates \<Rightarrow>
          (let candidate = opt_index0 candidates in
           if truthy candidate \<and> truthy (candidate_text candidate)
           then return_io (candidate_text candidate)
           else throw_io (Error (js ''Failed to parse analysis from the AI response.''))))"

definition getSocialMediaAnalysis :: "world \<Rightarrow> jsstring \<Rightarrow> jsval io" where
  "getSocialMediaAnalysis w txt =
     bind_io (call_io (AnalysisCall txt) (Inr ())) (\<lambda>_.
       (case GEMINI_API_KEY w of
          None \<Rightarrow> throw_io (Error (js ''GEMINI_API_KEY is not defined in the environment variables.''))
        | Some key \<Rightarrow>
            if key = [] then throw_io (Error (js ''GEMINI_API_KEY is not defined in the environment variables.''))
            else
              catch_io
                (bind_io (call_io (AxiosPost (apiUrl key) (request_body (make_prompt txt)))
                            (axios_post w (apiUrl key) (request_body (make_prompt txt))))
                   parse_response)
                (\<lambda>e. throw_io (Error (js ''AI analysis failed: '' @ message e)))))"

section \<open>The upload handlers\<close>

text \<open>
  \<^verbatim>\<open>req.file\<close> is what the upload middleware staged on disk, absent when the form has no
  file; \<^verbatim>\<open>req.body\<close> gives each form field its value, \<^verbatim>\<open>undefined\<close> when the field is
  absent. A response is \<^verbatim>\<open>res.json({ text, analysis })\<close> or \<^verbatim>\<open>res.status(n).send(msg)\<close>.
\<close>

record uploaded_file =
  path :: jsstring
  originalname :: jsstring

record request =
  req_file :: "uploaded_file option"
  body :: "jsstring \<Rightarrow> jsval"

datatype response = Json nat jsstring jsval | Send nat jsstring

definition readFileSync :: "files \<Rightarrow> jsstring \<Rightarrow> bytes io" where
  "readFileSync fs p =
     call_io (ReadFileSync p)
       (case fs p of
          None \<Rightarrow> Inl (Error (js ''ENOENT: no such file or directory, open '' @ [0x27] @ p @ [0x27]))
        | Some b \<Rightarrow> Inr b)"

text \<open>Lines 161 to 174: the body of the page loop, on page \<open>i\<close>.\<close>

definition ocr_page :: "world \<Rightarrow> files \<Rightarrow> pdf_doc \<Rightarrow> nat \<Rightarrow> jsstring \<Rightarrow> jsstring io" where
  "ocr_page w fs doc i extractedText =
     bind_io (call_io (GetPage i) (getPage doc i)) (\<lambda>page.
     bind_io (call_io (GetViewport i 2.0) (Inr (getViewport page 2.0))) (\<lambda>viewport.
     bind_io (call_io (CreateCanvas (vp_width viewport) (vp_height viewport))
                (createCanvas w (vp_width viewport) (vp_height viewport))) (\<lambda>canvasAndContext.
     bind_io (call_io (RenderPage i) (render page viewport)) (\<lambda>bitmap.
     bind_io (call_io (ToBuffer (js ''image/png'')) (toBuffer w bitmap (js ''image/png''))) (\<lambda>imageBuffer.
     bind_io (call_io (Recognize (ImageBuffer imageBuffer) (js ''eng''))
                (recognize w fs (ImageBuffer imageBuffer) (js ''eng''))) (\<lambda>txt.
     bind_io (call_io (PageCleanup i) (Inr ())) (\<lambda>_.
     bind_io (call_io DestroyCanvas (Inr ())) (\<lambda>_.
     return_io (extractedText @ txt @ js ''\<newline>'')))))))))"

text \<open>Line 160: \<^verbatim>\<open>for (let i = 1; i <= doc.numPages; i++)\<close>.\<close>

function ocr_loop :: "world \<Rightarrow> files \<Rightarrow> pdf_doc \<Rightarrow> nat \<Rightarrow> jsstring \<Rightarrow> jsstring io" where
  "ocr_loop w fs doc i extractedText =
     (if i \<le> numPages doc
      then bind_io (ocr_page w fs doc i extractedText) (\<lambda>extractedText'. ocr_loop w fs doc (i + 1) extractedText')
      else return_io extractedText)"
  by pat_completeness auto
termination
  by (relation "measure (\<lambda>(w, fs, doc, i, extractedText). numPages doc + 1 - i)") auto

text \<open>Lines 151 to 176: direct extraction, or the OCR of every page.\<close>

definition extract_pdf :: "world \<Rightarrow> files \<Rightarrow> bool \<Rightarrow> bytes \<Rightarrow> jsstring io" where
  "extract_pdf w fs isScanned dataBuffer =
     (if \<not> isScanned
      then call_io (PdfParse dataBuffer) (pdfParse w dataBuffer)
      else bind_io (call_io (GetDocument dataBuffer) (getDocument w dataBuffer)) (\<lambda>doc.
             ocr_loop w fs doc 1 []))"

text \<open>Lines 180 to 185 and 220 to 225: the optional analysis and the reply.\<close>

definition analyze_and_reply :: "world \<Rightarrow> bool \<Rightarrow> jsstring \<Rightarrow> response io" where
  "analyze_and_reply w shouldAnalyze extractedText =
     bind_io (if shouldAnalyze \<and> truthy (Str (trim extractedText))
              then getSocialMediaAnalysis w extractedText
              else return_io Null) (\<lambda>analysisResult.
     return_io (Json 200 extractedText analysisResult))"

definition isScanned :: "request \<Rightarrow> bool" where
  "isScanned req = strict_eq_string (body req (js ''scanned'')) (js ''true'')"

definition shouldAnalyze :: "request \<Rightarrow> bool" where
  "shouldAnalyze req = strict_eq_string (body req (js ''analyze'')) (js ''true'')"

text \<open>The \<^verbatim>\<open>try\<close> blocks of the two handlers.\<close>

definition upload_pdf_try :: "world \<Rightarrow> files \<Rightarrow> request \<Rightarrow> jsstring \<Rightarrow> response io" where
  "upload_pdf_try w fs req filePath =
     bind_io (readFileSync fs filePath) (\<lambda>dataBuffer.
     bind_io (extract_pdf w fs (isScanned req) dataBuffer) (\<lambda>extractedText.
     analyze_and_reply w (shouldAnalyze req) extractedText))"

definition upload_image_try :: "world \<Rightarrow> files \<Rightarrow> request \<Rightarrow> jsstring \<Rightarrow> response io" where
  "upload_image_try w fs req filePath =
     bind_io (call_io (Recognize (ImagePath filePath) (js ''eng''))
                (recognize w fs (ImagePath filePath) (js ''eng''))) (\<lambda>extractedText.
     analyze_and_reply w (shouldAnalyze req) extractedText)"

text \<open>
  The \<^verbatim>\<open>finally\<close> blocks: \<^verbatim>\<open>if (fs.existsSync(filePath)) fs.unlinkSync(filePath)\<close>.
\<close>

definition cleanup :: "files \<Rightarrow> jsstring \<Rightarrow> files \<times> event list" where
  "cleanup fs filePath =
     (if fs filePath \<noteq> None
      then (fs(filePath := None), [ExistsSync filePath, UnlinkSync filePath])
      else (fs, [ExistsSync filePath]))"

text \<open>
  The handlers: the guard on \<^verbatim>\<open>req.file\<close>, then \<^verbatim>\<open>try\<close>, \<^verbatim>\<open>catch\<close> (the generic reply
  with status 500) and \<^verbatim>\<open>finally\<close>. A handler gives the response, the file system it
  leaves and the events of the request.
\<close>

definition upload_pdf :: "world \<Rightarrow> request \<Rightarrow> files \<Rightarrow> response \<times> files \<times> event list" where
  "upload_pdf w req fs =
     (case req_file req of
        None \<Rightarrow> (Send 400 (js ''No file uploaded.''), fs, [])
      | Some f \<Rightarrow>
          (let filePath = path f in
           case upload_pdf_try w fs req filePath of (r, es) \<Rightarrow>
           case cleanup fs filePath of (fs', es') \<Rightarrow>
             ((case r of Inl err \<Rightarrow> Send 500 (js ''Failed to process PDF.'') | Inr res \<Rightarrow> res),
              fs', es @ es')))"

definition upload_image :: "world \<Rightarrow> request \<Rightarrow> files \<Rightarrow> response \<times> files \<times> event list" where
  "upload_image w req fs =
     (case req_file req of
        None \<Rightarrow> (Send 400 (js ''No file uploaded.''), fs, [])
      | Some f \<Rightarrow>
          (let filePath = path f in
           case upload_image_try w fs req filePath of (r, es) \<Rightarrow>
           case cleanup fs filePath of (fs', es') \<Rightarrow>
             ((case r of Inl err \<Rightarrow> Send 500 (js ''Failed to extract image text.'') | Inr res \<Rightarrow> res),
              fs', es @ es')))"

section \<open>Direct extraction, as the specification describes it\<close>




section \<open>Classes of events\<close>

text \<open>
  The calls of the extraction step (file read, PDF and OCR libraries), the calls of the
  analysis client, and the deletions.
\<close>

fun is_extraction_event :: "event \<Rightarrow> bool" where
  "is_extraction_event (AnalysisCall t) = False"
| "is_extraction_event (AxiosPost u b) = False"
| "is_extraction_event (ExistsSync p) = False"
| "is_extraction_event (UnlinkSync p) = False"
| "is_extraction_event e = True"

fun is_analysis_call :: "event \<Rightarrow> bool" where
  "is_analysis_call (AnalysisCall t) = True"
| "is_analysis_call e = False"

fun is_unlink :: "event \<Rightarrow> bool" where
  "is_unlink (UnlinkSync p) = True"
| "is_unlink e = False"

definition analysis_attempted :: "event list \<Rightarrow> bool" where
  "analysis_attempted es = list_ex is_analysis_call es"

section \<open>A concrete environment\<close>

text \<open>
  An environment to run the handlers in: no API key, an endpoint that cannot be reached,
  a parser that rejects the empty buffer, a document of two pages, and an OCR that reads
  the bytes of the image as text.
\<close>

definition demo_page :: "nat \<Rightarrow> pdf_page" where
  "demo_page i =
     \<lparr>getViewport = (\<lambda>s. \<lparr>vp_scale = s, vp_width = 612 * s, vp_height = 792 * s\<rparr>),
      render = (\<lambda>vp. Inr [of_nat (64 + i)])\<rparr>"

definition demo_doc :: "nat \<Rightarrow> pdf_doc" where
  "demo_doc n =
     \<lparr>numPages = n,
      getPage = (\<lambda>i. if 1 \<le> i \<and> i \<le> n then Inr (demo_page i)
                     else Inl (Error (js ''Invalid page request.'')))\<rparr>"

definition demo_ocr :: "files \<Rightarrow> image \<Rightarrow> jsstring \<Rightarrow> error + jsstring" where
  "demo_ocr fs img lang =
     (case img of
        ImageBuffer b \<Rightarrow> Inr (map ucast b)
      | ImagePath p \<Rightarrow>
          (case fs p of None \<Rightarrow> Inl (Error (js ''Error attempting to read image.''))
           | Some b \<Rightarrow> Inr (map ucast b)))"

definition demo_world :: "nat \<Rightarrow> world" where
  "demo_world n =
     \<lparr>GEMINI_API_KEY = None,
      axios_post = (\<lambda>url b. Inl (Error (js ''Network Error''))),
      pdfParse = (\<lambda>b. if b = [] then Inl (Error (js ''Invalid PDF structure'')) else Inr (map ucast b)),
      getDocument = (\<lambda>b. if b = [] then Inl (Error (js ''Invalid PDF structure'')) else Inr (demo_doc n)),
      createCanvas = (\<lambda>w h. Inr ()),
      toBuffer = (\<lambda>bmp mime. Inr bmp),
      recognize = demo_ocr\<rparr>"

definition demo_files :: files where
  "demo_files = [js ''uploads/1_a.pdf'' \<mapsto> [0x48, 0x69]]"

definition demo_request :: "jsval \<Rightarrow> jsval \<Rightarrow> request" where
  "demo_request scanned analyze =
     \<lparr>req_file = Some \<lparr>path = js ''uploads/1_a.pdf'', originalname = js ''a.pdf''\<rparr>,
      body = (\<lambda>k. if k = js ''scanned'' then scanned else if k = js ''analyze'' then analyze else Undefined)\<rparr>"


section \<open>Basic facts\<close>

declare ocr_loop.simps [simp del]

subsection \<open>Sequencing\<close>

lemma bind_io_throw: "bind_io (Inl e, es) f = (Inl e, es)"
  by (simp add: bind_io_def)


lemma fst_bind_io:
  "fst (bind_io m f) = (case fst m of Inl e \<Rightarrow> Inl e | Inr x \<Rightarrow> fst (f x))"
  by (cases m) (simp add: bind_io_def split: sum.splits prod.splits)

lemma snd_bind_io:
  "snd (bind_io m f) = (case fst m of Inl e \<Rightarrow> snd m | Inr x \<Rightarrow> snd m @ snd (f x))"
  by (cases m) (simp add: bind_io_def split: sum.splits prod.splits)

lemma snd_call_io: "snd (call_io ev r) = [ev]"
  by (simp add: call_io_def)

lemma fst_call_io: "fst (call_io ev r) = r"
  by (simp add: call_io_def)

lemma snd_return_io: "snd (return_io x) = []"
  by (simp add: return_io_def)

lemma fst_return_io: "fst (return_io x) = Inr x"
  by (simp add: return_io_def)

lemma ocr_page_events: "e \<in> set (snd (ocr_page w fs doc i acc)) \<Longrightarrow> is_extraction_event e"
  by (auto simp: ocr_page_def snd_bind_io snd_call_io fst_call_io snd_return_io split: sum.splits)

lemma ocr_loop_events: "e \<in> set (snd (ocr_loop w fs doc i acc)) \<Longrightarrow> is_extraction_event e"
proof (induction w fs doc i acc rule: ocr_loop.induct)
  case (1 w fs doc i acc)
  show ?case
  proof (cases "i \<le> numPages doc")
    case False
    with "1.prems" show ?thesis by (simp add: ocr_loop.simps snd_return_io)
  next
    case True
    with "1.prems" have "e \<in> set (snd (bind_io (ocr_page w fs doc i acc) (ocr_loop w fs doc (i + 1))))"
      by (simp add: ocr_loop.simps)
    then show ?thesis using "1.IH" [OF True] ocr_page_events [of e w fs doc i acc]
      by (auto simp: snd_bind_io split: sum.splits)
  qed
qed

lemma extract_pdf_events: "e \<in> set (snd (extract_pdf w fs sc buf)) \<Longrightarrow> is_extraction_event e"
  using ocr_loop_events [of e w fs _ 1 "[]"]
  by (auto simp: extract_pdf_def snd_bind_io snd_call_io fst_call_io split: sum.splits if_splits)

lemma dropWhile_all: "(\<forall>x \<in> set (dropWhile P xs). P x) \<longleftrightarrow> (\<forall>x \<in> set xs. P x)"
proof
  assume a: "\<forall>x \<in> set (dropWhile P xs). P x"
  have "dropWhile P xs = []"
  proof (rule ccontr)
    assume n: "dropWhile P xs \<noteq> []"
    then have "\<not> P (hd (dropWhile P xs))" by (rule hd_dropWhile)
    moreover from n have "hd (dropWhile P xs) \<in> set (dropWhile P xs)" by simp
    ultimately show False using a by blast
  qed
  then show "\<forall>x \<in> set xs. P x" by simp
next
  assume "\<forall>x \<in> set xs. P x"
  then show "\<forall>x \<in> set (dropWhile P xs). P x" by (auto dest: set_dropWhileD)
qed

lemma trim_empty_iff: "trim t = [] \<longleftrightarrow> (\<forall>c \<in> set t. is_white_space c)"
  by (simp add: trim_def dropWhile_all)

subsection \<open>The analysis step and the try blocks\<close>

lemma analyze_and_reply_skip:
  "\<not> (sa \<and> trim txt \<noteq> []) \<Longrightarrow> analyze_and_reply w sa txt = (Inr (Json 200 txt Null), [])"
  by (auto simp: analyze_and_reply_def bind_io_def return_io_def)

lemma analyze_and_reply_run:
  "sa \<Longrightarrow> trim txt \<noteq> [] \<Longrightarrow>
   analyze_and_reply w sa txt =
     (case getSocialMediaAnalysis w txt of
        (Inl e, es) \<Rightarrow> (Inl e, es)
      | (Inr a, es) \<Rightarrow> (Inr (Json 200 txt a), es))"
  by (simp add: analyze_and_reply_def bind_io_def return_io_def split: prod.splits sum.splits)

lemma analysis_call_first:
  "\<exists>es. snd (getSocialMediaAnalysis w t) = AnalysisCall t # es"
  by (simp add: getSocialMediaAnalysis_def snd_bind_io fst_call_io snd_call_io)

lemma analyze_and_reply_attempted:
  "analysis_attempted (snd (analyze_and_reply w sa txt)) = (sa \<and> trim txt \<noteq> [])"
proof (cases "sa \<and> trim txt \<noteq> []")
  case False
  then show ?thesis by (simp add: analyze_and_reply_skip analysis_attempted_def)
next
  case True
  obtain es where "snd (getSocialMediaAnalysis w txt) = AnalysisCall txt # es"
    using analysis_call_first by blast
  with True show ?thesis
    by (cases "getSocialMediaAnalysis w txt")
       (auto simp: analyze_and_reply_run analysis_attempted_def split: sum.splits)
qed

lemma analyze_and_reply_no_unlink:
  "e \<in> set (snd (analyze_and_reply w sa txt)) \<Longrightarrow> \<not> is_unlink e"
  by (auto simp: analyze_and_reply_def getSocialMediaAnalysis_def parse_response_def
      snd_bind_io fst_bind_io fst_call_io snd_call_io snd_return_io catch_io_def throw_io_def return_io_def
      bind_io_def call_io_def Let_def
      split: sum.splits if_splits option.splits prod.splits)

lemma extraction_not_analysis: "is_extraction_event e \<Longrightarrow> \<not> is_analysis_call e"
  by (cases e) simp_all

lemma extraction_not_unlink: "is_extraction_event e \<Longrightarrow> \<not> is_unlink e"
  by (cases e) simp_all

lemma upload_pdf_try_read_fails:
  "fs p = None \<Longrightarrow> \<exists>e. upload_pdf_try w fs req p = (Inl e, [ReadFileSync p])"
  by (simp add: upload_pdf_try_def readFileSync_def call_io_def bind_io_def)

lemma upload_pdf_try_extract_fails:
  "fs p = Some buf \<Longrightarrow> extract_pdf w fs (isScanned req) buf = (Inl e, es) \<Longrightarrow>
   upload_pdf_try w fs req p = (Inl e, ReadFileSync p # es)"
  by (simp add: upload_pdf_try_def readFileSync_def call_io_def bind_io_def)

lemma upload_pdf_try_extracted:
  "fs p = Some buf \<Longrightarrow> extract_pdf w fs (isScanned req) buf = (Inr txt, es) \<Longrightarrow>
   upload_pdf_try w fs req p =
     (fst (analyze_and_reply w (shouldAnalyze req) txt),
      ReadFileSync p # es @ snd (analyze_and_reply w (shouldAnalyze req) txt))"
  by (simp add: upload_pdf_try_def readFileSync_def call_io_def bind_io_def split: prod.splits)

lemma upload_image_try_extract_fails:
  "recognize w fs (ImagePath p) (js ''eng'') = Inl e \<Longrightarrow>
   upload_image_try w fs req p = (Inl e, [Recognize (ImagePath p) (js ''eng'')])"
  by (simp add: upload_image_try_def call_io_def bind_io_def)

lemma upload_image_try_extracted:
  "recognize w fs (ImagePath p) (js ''eng'') = Inr txt \<Longrightarrow>
   upload_image_try w fs req p =
     (fst (analyze_and_reply w (shouldAnalyze req) txt),
      Recognize (ImagePath p) (js ''eng'') # snd (analyze_and_reply w (shouldAnalyze req) txt))"
  by (simp add: upload_image_try_def call_io_def bind_io_def split: prod.splits)

lemma upload_pdf_try_no_unlink:
  "e \<in> set (snd (upload_pdf_try w fs req p)) \<Longrightarrow> \<not> is_unlink e"
proof (cases "fs p")
  case None
  then obtain err where "upload_pdf_try w fs req p = (Inl err, [ReadFileSync p])"
    using upload_pdf_try_read_fails by blast
  then show "e \<in> set (snd (upload_pdf_try w fs req p)) \<Longrightarrow> \<not> is_unlink e" by auto
next
  case (Some buf)
  assume e: "e \<in> set (snd (upload_pdf_try w fs req p))"
  obtain r es where x: "extract_pdf w fs (isScanned req) buf = (r, es)"
    by (cases "extract_pdf w fs (isScanned req) buf")
  have es: "\<And>e. e \<in> set es \<Longrightarrow> \<not> is_unlink e"
    using extract_pdf_events [of _ w fs "isScanned req" buf] x extraction_not_unlink by auto
  show "\<not> is_unlink e"
  proof (cases r)
    case (Inl err)
    with Some x e es show ?thesis by (auto simp: upload_pdf_try_extract_fails)
  next
    case (Inr extracted)
    with Some x e es analyze_and_reply_no_unlink [of e w "shouldAnalyze req" extracted]
    show ?thesis by (auto simp: upload_pdf_try_extracted)
  qed
qed

lemma upload_image_try_no_unlink:
  "e \<in> set (snd (upload_image_try w fs req p)) \<Longrightarrow> \<not> is_unlink e"
proof (cases "recognize w fs (ImagePath p) (js ''eng'')")
  case (Inl err)
  then show "e \<in> set (snd (upload_image_try w fs req p)) \<Longrightarrow> \<not> is_unlink e"
    by (auto simp: upload_image_try_extract_fails)
next
  case (Inr extracted)
  then show "e \<in> set (snd (upload_image_try w fs req p)) \<Longrightarrow> \<not> is_unlink e"
    using analyze_and_reply_no_unlink [of e w "shouldAnalyze req" extracted]
    by (auto simp: upload_image_try_extracted)
qed

lemma filter_no_unlink: "(\<And>e. e \<in> set es \<Longrightarrow> \<not> is_unlink e) \<Longrightarrow> filter is_unlink es = []"
  by (induction es) auto

subsection \<open>The handlers as a whole\<close>

lemma upload_pdf_result:
  "req_file req = Some f \<Longrightarrow>
   upload_pdf w req fs =
     ((case fst (upload_pdf_try w fs req (path f)) of
         Inl err \<Rightarrow> Send 500 (js ''Failed to process PDF.'') | Inr res \<Rightarrow> res),
      fst (cleanup fs (path f)),
      snd (upload_pdf_try w fs req (path f)) @ snd (cleanup fs (path f)))"
  by (simp add: upload_pdf_def Let_def split: prod.splits)

lemma upload_image_result:
  "req_file req = Some f \<Longrightarrow>
   upload_image w req fs =
     ((case fst (upload_image_try w fs req (path f)) of
         Inl err \<Rightarrow> Send 500 (js ''Failed to extract image text.'') | Inr res \<Rightarrow> res),
      fst (cleanup fs (path f)),
      snd (upload_image_try w fs req (path f)) @ snd (cleanup fs (path f)))"
  by (simp add: upload_image_def Let_def split: prod.splits)

lemma cleanup_present:
  "fs p \<noteq> None \<Longrightarrow> cleanup fs p = (fs(p := None), [ExistsSync p, UnlinkSync p])"
  by (simp add: cleanup_def)

lemma attempted_extraction:
  "(\<And>e. e \<in> set es \<Longrightarrow> is_extraction_event e) \<Longrightarrow> \<not> analysis_attempted es"
  by (auto simp: analysis_attempted_def list_ex_iff dest: extraction_not_analysis)

lemma attempted_cleanup: "\<not> analysis_attempted (snd (cleanup fs p))"
  by (simp add: cleanup_def analysis_attempted_def)


text \<open>Without the \<^verbatim>\<open>analyze\<close> flag no request reaches the analysis client.\<close>

lemma analyze_and_reply_only_when_requested:
  "analysis_attempted (snd (analyze_and_reply w sa extracted)) \<Longrightarrow> sa"
  by (simp add: analyze_and_reply_attempted)

lemma upload_pdf_analysis_only_when_requested:
  assumes "analysis_attempted (snd (snd (upload_pdf w req fs)))"
  shows "shouldAnalyze req"
proof (cases "req_file req")
  case None
  with assms show ?thesis by (simp add: upload_pdf_def analysis_attempted_def)
next
  case (Some f)
  from assms have a: "analysis_attempted (snd (upload_pdf_try w fs req (path f)))"
    using attempted_cleanup [of fs "path f"]
    by (simp add: upload_pdf_result [OF Some] analysis_attempted_def)
  show ?thesis
  proof (cases "fs (path f)")
    case None
    then obtain e where "upload_pdf_try w fs req (path f) = (Inl e, [ReadFileSync (path f)])"
      using upload_pdf_try_read_fails by blast
    with a show ?thesis by (simp add: analysis_attempted_def)
  next
    case present: (Some buf)
    obtain r xs where x: "extract_pdf w fs (isScanned req) buf = (r, xs)"
      by (cases "extract_pdf w fs (isScanned req) buf")
    have xs: "\<not> analysis_attempted xs"
      using extract_pdf_events [of _ w fs "isScanned req" buf] x by (intro attempted_extraction) simp
    show ?thesis
    proof (cases r)
      case (Inl e)
      with present x have "upload_pdf_try w fs req (path f) = (Inl e, ReadFileSync (path f) # xs)"
        by (simp add: upload_pdf_try_extract_fails)
      with a xs show ?thesis by (simp add: analysis_attempted_def)
    next
      case (Inr extracted)
      with present x have "upload_pdf_try w fs req (path f) =
          (fst (analyze_and_reply w (shouldAnalyze req) extracted),
           ReadFileSync (path f) # xs @ snd (analyze_and_reply w (shouldAnalyze req) extracted))"
        by (simp add: upload_pdf_try_extracted)
      with a xs have "analysis_attempted (snd (analyze_and_reply w (shouldAnalyze req) extracted))"
        by (simp add: analysis_attempted_def)
      then show ?thesis by (rule analyze_and_reply_only_when_requested)
    qed
  qed
qed

lemma upload_image_analysis_only_when_requested:
  assumes "analysis_attempted (snd (snd (upload_image w req fs)))"
  shows "shouldAnalyze req"
proof (cases "req_file req")
  case None
  with assms show ?thesis by (simp add: upload_image_def analysis_attempted_def)
next
  case (Some f)
  from assms have a: "analysis_attempted (snd (upload_image_try w fs req (path f)))"
    using attempted_cleanup [of fs "path f"]
    by (simp add: upload_image_result [OF Some] analysis_attempted_def)
  show ?thesis
  proof (cases "recognize w fs (ImagePath (path f)) (js ''eng'')")
    case (Inl e)
    with a show ?thesis
      by (simp add: upload_image_try_extract_fails analysis_attempted_def)
  next
    case (Inr extracted)
    with a have "analysis_attempted (snd (analyze_and_reply w (shouldAnalyze req) extracted))"
      by (simp add: upload_image_try_extracted analysis_attempted_def)
    then show ?thesis by (rule analyze_and_reply_only_when_requested)
  qed
qed


text \<open>The image handler: one OCR call on the staged file, and the reply it leads to.\<close>

lemma analyze_and_reply_no_extraction:
  "e \<in> set (snd (analyze_and_reply w sa extracted)) \<Longrightarrow> \<not> is_extraction_event e"
  by (auto simp: analyze_and_reply_def getSocialMediaAnalysis_def parse_response_def
      catch_io_def throw_io_def return_io_def bind_io_def call_io_def Let_def
      split: sum.splits if_splits option.splits prod.splits)

lemma filter_no_extraction:
  "(\<And>e. e \<in> set es \<Longrightarrow> \<not> is_extraction_event e) \<Longrightarrow> filter is_extraction_event es = []"
  by (induction es) auto

lemma upload_image_try_ocr:
  "filter is_extraction_event (snd (upload_image_try w fs req p)) = [Recognize (ImagePath p) (js ''eng'')]"
proof (cases "recognize w fs (ImagePath p) (js ''eng'')")
  case (Inl e)
  then show ?thesis by (simp add: upload_image_try_extract_fails)
next
  case (Inr extracted)
  have "filter is_extraction_event (snd (analyze_and_reply w (shouldAnalyze req) extracted)) = []"
    by (rule filter_no_extraction) (rule analyze_and_reply_no_extraction)
  with Inr show ?thesis by (simp add: upload_image_try_extracted)
qed

lemma cleanup_no_extraction: "filter is_extraction_event (snd (cleanup fs p)) = []"
  by (simp add: cleanup_def)

lemma upload_image_reply:
  assumes f: "req_file req = Some f"
  shows "fst (upload_image w req fs) =
     (case recognize w fs (ImagePath (path f)) (js ''eng'') of
        Inl e \<Rightarrow> Send 500 (js ''Failed to extract image text.'')
      | Inr recognized \<Rightarrow>
          (if shouldAnalyze req \<and> trim recognized \<noteq> []
           then (case fst (getSocialMediaAnalysis w recognized) of
                   Inl e \<Rightarrow> Send 500 (js ''Failed to extract image text.'')
                 | Inr a \<Rightarrow> Json 200 recognized a)
           else Json 200 recognized Null))"
proof (cases "recognize w fs (ImagePath (path f)) (js ''eng'')")
  case (Inl e)
  then show ?thesis
    by (simp add: upload_image_result [OF f] upload_image_try_extract_fails)
next
  case (Inr recognized)
  show ?thesis
  proof (cases "shouldAnalyze req \<and> trim recognized \<noteq> []")
    case False
    with Inr show ?thesis
      by (auto simp: upload_image_result [OF f] upload_image_try_extracted analyze_and_reply_skip)
  next
    case True
    with Inr show ?thesis
      by (cases "getSocialMediaAnalysis w recognized")
         (auto simp: upload_image_result [OF f] upload_image_try_extracted analyze_and_reply_run
               split: sum.splits)
  qed
qed

subsection \<open>How the analysis client fails\<close>

lemma analysis_fails_without_key:
  "GEMINI_API_KEY w = None \<or> GEMINI_API_KEY w = Some [] \<Longrightarrow>
   fst (getSocialMediaAnalysis w t) =
     Inl (Error (js ''GEMINI_API_KEY is not defined in the environment variables.''))"
  by (auto simp: getSocialMediaAnalysis_def bind_io_def call_io_def throw_io_def)

lemma analysis_fails_on_network_error:
  "GEMINI_API_KEY w = Some key \<Longrightarrow> key \<noteq> [] \<Longrightarrow>
   axios_post w (apiUrl key) (request_body (make_prompt t)) = Inl e \<Longrightarrow>
   fst (getSocialMediaAnalysis w t) = Inl (Error (js ''AI analysis failed: '' @ message e))"
  by (simp add: getSocialMediaAnalysis_def bind_io_def call_io_def throw_io_def catch_io_def)

lemma analysis_fails_on_malformed_response:
  "GEMINI_API_KEY w = Some key \<Longrightarrow> key \<noteq> [] \<Longrightarrow>
   axios_post w (apiUrl key) (request_body (make_prompt t)) = Inr data \<Longrightarrow>
   fst (parse_response data) = Inl e \<Longrightarrow>
   fst (getSocialMediaAnalysis w t) = Inl (Error (js ''AI analysis failed: '' @ message e))"
  by (cases "parse_response data")
     (simp add: getSocialMediaAnalysis_def bind_io_def call_io_def throw_io_def catch_io_def)

lemma parse_response_no_candidates:
  "fst (parse_response (Obj [])) = Inl (Error (js ''Failed to parse analysis from the AI response.''))"
  by (simp add: parse_response_def lookup_prop_def opt_index0_def throw_io_def)

subsection \<open>The page loop when every page succeeds\<close>



subsection \<open>The concrete environment\<close>

lemma demo_path_present: "demo_files (js ''uploads/1_a.pdf'') = Some [0x48, 0x69]"
  by (simp add: demo_files_def)

lemma demo_trim: "trim [0x48, 0x69] \<noteq> []"
  by (simp add: trim_def is_white_space_def)


text \<open>A run in direct mode with analysis requested and no API key.\<close>

lemma demo_run_direct:
  "upload_pdf (demo_world 2) (demo_request (Str (js ''false'')) (Str (js ''true''))) demo_files =
     (Send 500 (js ''Failed to process PDF.''), demo_files(js ''uploads/1_a.pdf'' := None),
      [ReadFileSync (js ''uploads/1_a.pdf''), PdfParse [0x48, 0x69], AnalysisCall (js ''Hi''),
       ExistsSync (js ''uploads/1_a.pdf''), UnlinkSync (js ''uploads/1_a.pdf'')])"
  by (simp add: upload_pdf_def upload_pdf_try_def readFileSync_def extract_pdf_def
      analyze_and_reply_def getSocialMediaAnalysis_def isScanned_def shouldAnalyze_def cleanup_def
      bind_io_def call_io_def throw_io_def return_io_def Let_def
      demo_world_def demo_request_def demo_files_def trim_def is_white_space_def js_def)

section \<open>The claims of the specification\<close>

text \<open>
  Claim C1. In both handlers, once the text has been extracted, the analysis client is
  called if and only if the \<^verbatim>\<open>analyze\<close> flag is true and the extracted text is not empty
  after trimming; unless it is called, the response is \<^verbatim>\<open>{ text, analysis: null }\<close> with
  status 200. So \<^verbatim>\<open>analyze=false\<close>, and \<^verbatim>\<open>analyze=true\<close> on empty or whitespace-only text,
  both give \<^verbatim>\<open>analysis: null\<close> without a call of the client.
\<close>

theorem analysis_iff_requested_and_text:
  assumes f: "req_file req = Some f"
  shows "(fs (path f) = Some buf \<and> fst (extract_pdf w fs (isScanned req) buf) = Inr extracted \<longrightarrow>
            (case upload_pdf w req fs of (res, fs', es) \<Rightarrow>
               analysis_attempted es = (shouldAnalyze req \<and> trim extracted \<noteq> []) \<and>
               (analysis_attempted es \<or> res = Json 200 extracted Null)))
       \<and> (recognize w fs (ImagePath (path f)) (js ''eng'') = Inr extracted \<longrightarrow>
            (case upload_image w req fs of (res, fs', es) \<Rightarrow>
               analysis_attempted es = (shouldAnalyze req \<and> trim extracted \<noteq> []) \<and>
               (analysis_attempted es \<or> res = Json 200 extracted Null)))"
proof (intro conjI impI)
  assume a: "fs (path f) = Some buf \<and> fst (extract_pdf w fs (isScanned req) buf) = Inr extracted"
  obtain xs where x: "extract_pdf w fs (isScanned req) buf = (Inr extracted, xs)"
    using a by (cases "extract_pdf w fs (isScanned req) buf") simp
  have xs: "\<not> analysis_attempted xs"
    using extract_pdf_events [of _ w fs "isScanned req" buf] x by (intro attempted_extraction) simp
  have t: "upload_pdf_try w fs req (path f) =
     (fst (analyze_and_reply w (shouldAnalyze req) extracted),
      ReadFileSync (path f) # xs @ snd (analyze_and_reply w (shouldAnalyze req) extracted))"
    using a x by (simp add: upload_pdf_try_extracted)
  have ev: "analysis_attempted (ReadFileSync (path f) # xs @ snd (analyze_and_reply w (shouldAnalyze req) extracted)
              @ snd (cleanup fs (path f))) = (shouldAnalyze req \<and> trim extracted \<noteq> [])"
    using xs attempted_cleanup [of fs "path f"]
      analyze_and_reply_attempted [of w "shouldAnalyze req" extracted]
    by (simp add: analysis_attempted_def)
  show "case upload_pdf w req fs of (res, fs', es) \<Rightarrow>
          analysis_attempted es = (shouldAnalyze req \<and> trim extracted \<noteq> []) \<and>
          (analysis_attempted es \<or> res = Json 200 extracted Null)"
    using ev by (auto simp: upload_pdf_result [OF f] t analyze_and_reply_skip)
next
  assume a: "recognize w fs (ImagePath (path f)) (js ''eng'') = Inr extracted"
  have t: "upload_image_try w fs req (path f) =
     (fst (analyze_and_reply w (shouldAnalyze req) extracted),
      Recognize (ImagePath (path f)) (js ''eng'') # snd (analyze_and_reply w (shouldAnalyze req) extracted))"
    using a by (simp add: upload_image_try_extracted)
  have ev: "analysis_attempted (Recognize (ImagePath (path f)) (js ''eng'') # snd (analyze_and_reply w (shouldAnalyze req) extracted)
              @ snd (cleanup fs (path f))) = (shouldAnalyze req \<and> trim extracted \<noteq> [])"
    using attempted_cleanup [of fs "path f"]
      analyze_and_reply_attempted [of w "shouldAnalyze req" extracted]
    by (simp add: analysis_attempted_def)
  show "case upload_image w req fs of (res, fs', es) \<Rightarrow>
          analysis_attempted es = (shouldAnalyze req \<and> trim extracted \<noteq> []) \<and>
          (analysis_attempted es \<or> res = Json 200 extracted Null)"
    using ev by (auto simp: upload_image_result [OF f] t analyze_and_reply_skip)
qed

theorem analysis_iff_requested_and_text_witness:
  "req_file (demo_request (Str (js ''false'')) (Str (js ''false''))) =
     Some \<lparr>path = js ''uploads/1_a.pdf'', originalname = js ''a.pdf''\<rparr>
   \<and> demo_files (js ''uploads/1_a.pdf'') = Some [0x48, 0x69]
   \<and> fst (extract_pdf (demo_world 2) demo_files
             (isScanned (demo_request (Str (js ''false'')) (Str (js ''false'')))) [0x48, 0x69]) = Inr [0x48, 0x69]
   \<and> recognize (demo_world 2) demo_files (ImagePath (js ''uploads/1_a.pdf'')) (js ''eng'') = Inr [0x48, 0x69]
   \<and> (case upload_pdf (demo_world 2) (demo_request (Str (js ''false'')) (Str (js ''false''))) demo_files of
        (res, fs', es) \<Rightarrow> \<not> analysis_attempted es \<and> res = Json 200 [0x48, 0x69] Null)
   \<and> (case upload_image (demo_world 2) (demo_request (Str (js ''false'')) (Str (js ''false''))) demo_files of
        (res, fs', es) \<Rightarrow> \<not> analysis_attempted es \<and> res = Json 200 [0x48, 0x69] Null)"
proof -
  let ?req = "demo_request (Str (js ''false'')) (Str (js ''false''))"
  let ?f = "\<lparr>path = js ''uploads/1_a.pdf'', originalname = js ''a.pdf''\<rparr>"
  have f: "req_file ?req = Some ?f" by (simp add: demo_request_def)
  have sc: "isScanned ?req = False" by (simp add: isScanned_def demo_request_def js_def)
  have an: "shouldAnalyze ?req = False" by (simp add: shouldAnalyze_def demo_request_def js_def)
  have x: "fst (extract_pdf (demo_world 2) demo_files (isScanned ?req) [0x48, 0x69]) = Inr [0x48, 0x69]"
    by (simp add: sc extract_pdf_def call_io_def demo_world_def)
  have r: "recognize (demo_world 2) demo_files (ImagePath (js ''uploads/1_a.pdf'')) (js ''eng'') = Inr [0x48, 0x69]"
    by (simp add: demo_world_def demo_ocr_def demo_path_present)
  show ?thesis
    using analysis_iff_requested_and_text [OF f, of demo_files "[0x48, 0x69]" "demo_world 2" "[0x48, 0x69]"]
      f x r demo_path_present
    by (auto simp: an)
qed

text \<open>
  Claim C2. When a request carries a staged file that exists on disk, both handlers
  delete it exactly once, whatever the libraries and the analysis client return or
  throw: the file system left behind is the initial one without the staged file, and the
  request's only deletion is that of the staged file.
\<close>

theorem staged_file_deleted_once:
  assumes f: "req_file req = Some f" and present: "fs (path f) \<noteq> None"
  shows "(case upload_pdf w req fs of (res, fs', es) \<Rightarrow>
            fs' = fs(path f := None) \<and> filter is_unlink es = [UnlinkSync (path f)])
       \<and> (case upload_image w req fs of (res, fs', es) \<Rightarrow>
            fs' = fs(path f := None) \<and> filter is_unlink es = [UnlinkSync (path f)])"
  using filter_no_unlink [of "snd (upload_pdf_try w fs req (path f))", OF upload_pdf_try_no_unlink]
    filter_no_unlink [of "snd (upload_image_try w fs req (path f))", OF upload_image_try_no_unlink]
    cleanup_present [of fs "path f"] present
  by (simp add: upload_pdf_result [OF f] upload_image_result [OF f])

theorem staged_file_deleted_once_witness:
  "req_file (demo_request Undefined Undefined) =
     Some \<lparr>path = js ''uploads/1_a.pdf'', originalname = js ''a.pdf''\<rparr>
   \<and> demo_files (js ''uploads/1_a.pdf'') \<noteq> None
   \<and> (case upload_pdf (demo_world 2) (demo_request Undefined Undefined) demo_files of
        (res, fs', es) \<Rightarrow>
          fs' = demo_files(js ''uploads/1_a.pdf'' := None) \<and>
          filter is_unlink es = [UnlinkSync (js ''uploads/1_a.pdf'')])
   \<and> (case upload_image (demo_world 2) (demo_request Undefined Undefined) demo_files of
        (res, fs', es) \<Rightarrow>
          fs' = demo_files(js ''uploads/1_a.pdf'' := None) \<and>
          filter is_unlink es = [UnlinkSync (js ''uploads/1_a.pdf'')])"
proof -
  let ?req = "demo_request Undefined Undefined"
  let ?f = "\<lparr>path = js ''uploads/1_a.pdf'', originalname = js ''a.pdf''\<rparr>"
  have f: "req_file ?req = Some ?f" by (simp add: demo_request_def)
  have p: "demo_files (path ?f) \<noteq> None" by (simp add: demo_path_present)
  show ?thesis
    using staged_file_deleted_once [of ?req ?f demo_files "demo_world 2"] f p by simp
qed

text \<open>
  Claim C3. When extraction succeeds, analysis is requested on text that is not blank
  and the analysis client throws, both handlers answer with status 500 and the fixed
  message of the handler: the extracted text is not part of the response.
\<close>

theorem analysis_failure_gives_500:
  assumes f: "req_file req = Some f"
    and requested: "shouldAnalyze req" and nonempty: "trim extracted \<noteq> []"
    and fails: "fst (getSocialMediaAnalysis w extracted) = Inl e"
  shows "(fs (path f) = Some buf \<and> fst (extract_pdf w fs (isScanned req) buf) = Inr extracted \<longrightarrow>
            fst (upload_pdf w req fs) = Send 500 (js ''Failed to process PDF.''))
       \<and> (recognize w fs (ImagePath (path f)) (js ''eng'') = Inr extracted \<longrightarrow>
            fst (upload_image w req fs) = Send 500 (js ''Failed to extract image text.''))"
proof -
  have r: "fst (analyze_and_reply w (shouldAnalyze req) extracted) = Inl e"
    using requested nonempty fails
    by (cases "getSocialMediaAnalysis w extracted") (simp add: analyze_and_reply_run)
  show ?thesis
  proof (intro conjI impI)
    assume a: "fs (path f) = Some buf \<and> fst (extract_pdf w fs (isScanned req) buf) = Inr extracted"
    then obtain xs where "extract_pdf w fs (isScanned req) buf = (Inr extracted, xs)"
      by (cases "extract_pdf w fs (isScanned req) buf") simp
    with a r show "fst (upload_pdf w req fs) = Send 500 (js ''Failed to process PDF.'')"
      by (simp add: upload_pdf_result [OF f] upload_pdf_try_extracted)
  next
    assume "recognize w fs (ImagePath (path f)) (js ''eng'') = Inr extracted"
    with r show "fst (upload_image w req fs) = Send 500 (js ''Failed to extract image text.'')"
      by (simp add: upload_image_result [OF f] upload_image_try_extracted)
  qed
qed

theorem analysis_failure_gives_500_witness:
  "req_file (demo_request (Str (js ''false'')) (Str (js ''true''))) =
     Some \<lparr>path = js ''uploads/1_a.pdf'', originalname = js ''a.pdf''\<rparr>
   \<and> shouldAnalyze (demo_request (Str (js ''false'')) (Str (js ''true'')))
   \<and> trim [0x48, 0x69] \<noteq> []
   \<and> fst (getSocialMediaAnalysis (demo_world 2) [0x48, 0x69]) =
       Inl (Error (js ''GEMINI_API_KEY is not defined in the environment variables.''))
   \<and> demo_files (js ''uploads/1_a.pdf'') = Some [0x48, 0x69]
   \<and> fst (extract_pdf (demo_world 2) demo_files
             (isScanned (demo_request (Str (js ''false'')) (Str (js ''true'')))) [0x48, 0x69]) = Inr [0x48, 0x69]
   \<and> recognize (demo_world 2) demo_files (ImagePath (js ''uploads/1_a.pdf'')) (js ''eng'') = Inr [0x48, 0x69]
   \<and> fst (upload_pdf (demo_world 2) (demo_request (Str (js ''false'')) (Str (js ''true''))) demo_files) =
       Send 500 (js ''Failed to process PDF.'')
   \<and> fst (upload_image (demo_world 2) (demo_request (Str (js ''false'')) (Str (js ''true''))) demo_files) =
       Send 500 (js ''Failed to extract image text.'')"
proof -
  let ?req = "demo_request (Str (js ''false'')) (Str (js ''true''))"
  let ?f = "\<lparr>path = js ''uploads/1_a.pdf'', originalname = js ''a.pdf''\<rparr>"
  have f: "req_file ?req = Some ?f" by (simp add: demo_request_def)
  have sc: "isScanned ?req = False" by (simp add: isScanned_def demo_request_def js_def)
  have an: "shouldAnalyze ?req" by (simp add: shouldAnalyze_def demo_request_def js_def)
  have a: "fst (getSocialMediaAnalysis (demo_world 2) [0x48, 0x69]) =
       Inl (Error (js ''GEMINI_API_KEY is not defined in the environment variables.''))"
    by (simp add: getSocialMediaAnalysis_def bind_io_def call_io_def throw_io_def demo_world_def)
  have x: "fst (extract_pdf (demo_world 2) demo_files (isScanned ?req) [0x48, 0x69]) = Inr [0x48, 0x69]"
    by (simp add: sc extract_pdf_def call_io_def demo_world_def)
  have r: "recognize (demo_world 2) demo_files (ImagePath (js ''uploads/1_a.pdf'')) (js ''eng'') = Inr [0x48, 0x69]"
    by (simp add: demo_world_def demo_ocr_def demo_path_present)
  show ?thesis
    using analysis_failure_gives_500 [OF f an demo_trim a, of demo_files "[0x48, 0x69]"]
      f an demo_trim a x r demo_path_present
    by simp
qed





text \<open>
  Claim C6. A request without a file is answered with status 400 by both handlers,
  before any call of a library or of the file system: there is no event, and the file
  system is unchanged, so no file has been created.
\<close>

theorem no_file_gives_400:
  assumes "req_file req = None"
  shows "upload_pdf w req fs = (Send 400 (js ''No file uploaded.''), fs, [])
       \<and> upload_image w req fs = (Send 400 (js ''No file uploaded.''), fs, [])"
  using assms by (simp add: upload_pdf_def upload_image_def)

theorem no_file_gives_400_witness:
  "req_file \<lparr>req_file = None, body = (\<lambda>k. Undefined)\<rparr> = None
   \<and> upload_pdf (demo_world 2) \<lparr>req_file = None, body = (\<lambda>k. Undefined)\<rparr> demo_files =
       (Send 400 (js ''No file uploaded.''), demo_files, [])
   \<and> upload_image (demo_world 2) \<lparr>req_file = None, body = (\<lambda>k. Undefined)\<rparr> demo_files =
       (Send 400 (js ''No file uploaded.''), demo_files, [])"
  using no_file_gives_400 [of "\<lparr>req_file = None, body = (\<lambda>k. Undefined)\<rparr>" "demo_world 2" demo_files]
  by simp

text \<open>
  Claim C7. Without \<^verbatim>\<open>GEMINI_API_KEY\<close> in the environment the analysis client throws
  the configuration error, and its only event is its own invocation: no request is
  posted to the endpoint.
\<close>

theorem missing_key_no_network_call:
  assumes "GEMINI_API_KEY w = None"
  shows "getSocialMediaAnalysis w t =
           (Inl (Error (js ''GEMINI_API_KEY is not defined in the environment variables.'')),
            [AnalysisCall t])"
  using assms by (simp add: getSocialMediaAnalysis_def bind_io_def call_io_def throw_io_def)

theorem missing_key_no_network_call_witness:
  "GEMINI_API_KEY (demo_world 0) = None
   \<and> getSocialMediaAnalysis (demo_world 0) (js ''Hi'') =
       (Inl (Error (js ''GEMINI_API_KEY is not defined in the environment variables.'')),
        [AnalysisCall (js ''Hi'')])"
proof -
  have k: "GEMINI_API_KEY (demo_world 0) = None" by (simp add: demo_world_def)
  show ?thesis using missing_key_no_network_call [OF k, of "js ''Hi''"] k by simp
qed

text \<open>
  Claim C8. The flags \<^verbatim>\<open>scanned\<close> and \<^verbatim>\<open>analyze\<close> are true if and only if the form field
  is exactly the string \<^verbatim>\<open>"true"\<close>; an absent field, \<^verbatim>\<open>"True"\<close>, \<^verbatim>\<open>"1"\<close> and a value
  that is not a string are false.
\<close>

theorem flags_exact_string:
  "isScanned req = (body req (js ''scanned'') = Str (js ''true''))
   \<and> shouldAnalyze req = (body req (js ''analyze'') = Str (js ''true''))
   \<and> strict_eq_string Undefined (js ''true'') = False
   \<and> strict_eq_string (Str (js ''True'')) (js ''true'') = False
   \<and> strict_eq_string (Str (js ''1'')) (js ''true'') = False
   \<and> strict_eq_string (Bool True) (js ''true'') = False"
proof -
  have "isScanned req = (body req (js ''scanned'') = Str (js ''true''))"
    by (cases "body req (js ''scanned'')") (simp_all add: isScanned_def)
  moreover have "shouldAnalyze req = (body req (js ''analyze'') = Str (js ''true''))"
    by (cases "body req (js ''analyze'')") (simp_all add: shouldAnalyze_def)
  ultimately show ?thesis by (simp add: js_def)
qed

text \<open>
  Claim C9. In scanned mode, a document that parses and has no page gives the
  response \<^verbatim>\<open>{ text: "", analysis: null }\<close> with status 200, whatever the \<^verbatim>\<open>analyze\<close>
  field: the page loop does not run, the analysis client is not called, and the staged
  file is deleted.
\<close>

theorem zero_pages_gives_empty_text:
  assumes f: "req_file req = Some f" and present: "fs (path f) = Some buf"
    and scanned: "body req (js ''scanned'') = Str (js ''true'')"
    and doc: "getDocument w buf = Inr doc" and zero: "numPages doc = 0"
  shows "upload_pdf w req fs =
     (Json 200 [] Null, fs(path f := None),
      [ReadFileSync (path f), GetDocument buf, ExistsSync (path f), UnlinkSync (path f)])"
proof -
  have s: "isScanned req" using scanned by (simp add: isScanned_def)
  have "ocr_loop w fs doc 1 [] = (Inr [], [])"
    using zero by (simp add: ocr_loop.simps return_io_def)
  then have x: "extract_pdf w fs (isScanned req) buf = (Inr [], [GetDocument buf])"
    using s doc by (simp add: extract_pdf_def bind_io_def call_io_def)
  have "trim [] = ([] :: jsstring)" by (simp add: trim_def)
  then have a: "analyze_and_reply w (shouldAnalyze req) [] = (Inr (Json 200 [] Null), [])"
    by (simp add: analyze_and_reply_skip)
  have c: "cleanup fs (path f) = (fs(path f := None), [ExistsSync (path f), UnlinkSync (path f)])"
    using present by (simp add: cleanup_def)
  show ?thesis
    using upload_pdf_try_extracted [OF present x] a c
    by (simp add: upload_pdf_result [OF f])
qed

theorem zero_pages_gives_empty_text_witness:
  "req_file (demo_request (Str (js ''true'')) (Str (js ''true''))) =
     Some \<lparr>path = js ''uploads/1_a.pdf'', originalname = js ''a.pdf''\<rparr>
   \<and> demo_files (js ''uploads/1_a.pdf'') = Some [0x48, 0x69]
   \<and> body (demo_request (Str (js ''true'')) (Str (js ''true''))) (js ''scanned'') = Str (js ''true'')
   \<and> getDocument (demo_world 0) [0x48, 0x69] = Inr (demo_doc 0)
   \<and> numPages (demo_doc 0) = 0
   \<and> shouldAnalyze (demo_request (Str (js ''true'')) (Str (js ''true'')))
   \<and> upload_pdf (demo_world 0) (demo_request (Str (js ''true'')) (Str (js ''true''))) demo_files =
       (Json 200 [] Null, demo_files(js ''uploads/1_a.pdf'' := None),
        [ReadFileSync (js ''uploads/1_a.pdf''), GetDocument [0x48, 0x69],
         ExistsSync (js ''uploads/1_a.pdf''), UnlinkSync (js ''uploads/1_a.pdf'')])"
proof -
  let ?req = "demo_request (Str (js ''true'')) (Str (js ''true''))"
  let ?f = "\<lparr>path = js ''uploads/1_a.pdf'', originalname = js ''a.pdf''\<rparr>"
  have f: "req_file ?req = Some ?f" by (simp add: demo_request_def)
  have p: "demo_files (path ?f) = Some [0x48, 0x69]" by (simp add: demo_path_present)
  have s: "body ?req (js ''scanned'') = Str (js ''true'')" by (simp add: demo_request_def)
  have an: "shouldAnalyze ?req" by (simp add: shouldAnalyze_def demo_request_def js_def)
  have d: "getDocument (demo_world 0) [0x48, 0x69] = Inr (demo_doc 0)" by (simp add: demo_world_def)
  have z: "numPages (demo_doc 0) = 0" by (simp add: demo_doc_def)
  show ?thesis
    using zero_pages_gives_empty_text [of ?req ?f demo_files "[0x48, 0x69]" "demo_world 0" "demo_doc 0"] f p s an d z
    by (simp add: demo_path_present)
qed

text \<open>
  Claim C10. The image handler does not read the \<^verbatim>\<open>scanned\<close> field: two requests that
  differ only in the value or the presence of that field get the same response, leave
  the same file system and cause the same events. The image is always processed by OCR
  directly: whenever a file is staged, the only call of the extraction step is the OCR
  of that file with the language \<^verbatim>\<open>eng\<close> (no file read, no PDF parser, no rendering), and
  the text of every response with status 200 is the text this call recognized.
\<close>

theorem upload_image_ignores_scanned:
  "upload_image w (req\<lparr>body := (body req)(js ''scanned'' := v)\<rparr>) fs = upload_image w req fs
   \<and> (case req_file req of
        None \<Rightarrow> upload_image w req fs = (Send 400 (js ''No file uploaded.''), fs, [])
      | Some f \<Rightarrow>
          filter is_extraction_event (snd (snd (upload_image w req fs))) =
            [Recognize (ImagePath (path f)) (js ''eng'')]
          \<and> fst (upload_image w req fs) =
              (case recognize w fs (ImagePath (path f)) (js ''eng'') of
                 Inl e \<Rightarrow> Send 500 (js ''Failed to extract image text.'')
               | Inr recognized \<Rightarrow>
                   (if shouldAnalyze req \<and> trim recognized \<noteq> []
                    then (case fst (getSocialMediaAnalysis w recognized) of
                            Inl e \<Rightarrow> Send 500 (js ''Failed to extract image text.'')
                          | Inr a \<Rightarrow> Json 200 recognized a)
                    else Json 200 recognized Null)))"
proof (intro conjI)
  have "js ''analyze'' \<noteq> js ''scanned''" by (simp add: js_def)
  then have "upload_image_try w fs (req\<lparr>body := (body req)(js ''scanned'' := v)\<rparr>) p =
             upload_image_try w fs req p" for p
    by (simp add: upload_image_try_def shouldAnalyze_def)
  then show "upload_image w (req\<lparr>body := (body req)(js ''scanned'' := v)\<rparr>) fs = upload_image w req fs"
    by (cases "req_file req") (simp_all add: upload_image_def)
next
  show "case req_file req of
        None \<Rightarrow> upload_image w req fs = (Send 400 (js ''No file uploaded.''), fs, [])
      | Some f \<Rightarrow>
          filter is_extraction_event (snd (snd (upload_image w req fs))) =
            [Recognize (ImagePath (path f)) (js ''eng'')]
          \<and> fst (upload_image w req fs) =
              (case recognize w fs (ImagePath (path f)) (js ''eng'') of
                 Inl e \<Rightarrow> Send 500 (js ''Failed to extract image text.'')
               | Inr recognized \<Rightarrow>
                   (if shouldAnalyze req \<and> trim recognized \<noteq> []
                    then (case fst (getSocialMediaAnalysis w recognized) of
                            Inl e \<Rightarrow> Send 500 (js ''Failed to extract image text.'')
                          | Inr a \<Rightarrow> Json 200 recognized a)
                    else Json 200 recognized Null))"
  proof (cases "req_file req")
    case None
    then show ?thesis by (simp add: upload_image_def)
  next
    case (Some f)
    have "filter is_extraction_event (snd (snd (upload_image w req fs))) =
            [Recognize (ImagePath (path f)) (js ''eng'')]"
      by (simp add: upload_image_result [OF Some] upload_image_try_ocr cleanup_no_extraction)
    with upload_image_reply [OF Some, of w fs] Some show ?thesis by simp
  qed
qed

end
